theory Spec2Isabelle
  imports Complex_Main
begin

section \<open>JavaScript values\<close>

text \<open>
  The program is JavaScript working on decoded JSON. Its values are modelled by the
  datatype \<open>jv\<close> below. A string is a list of 8-bit characters (the addresses, keys and
  decimal strings of the program are ASCII). An object is the association list of its own
  properties, read with \<open>map_of\<close>; the property names the program reads are fixed field
  names and ledger addresses, none of which is the name of an inherited member.
\<close>

subsection \<open>Numbers\<close>

text \<open>
  A Number is an IEEE 754 binary64 value: \<open>Fin q\<close> is the finite double whose value is
  the rational \<open>q\<close>. The two zeros are both \<open>Fin 0\<close>: the program never divides and
  prints both as \<open>0\<close>.
\<close>

datatype jsnum = NaN | PInf | NInf | Fin rat

definition pow2 :: "int \<Rightarrow> rat" where
  "pow2 e = (if 0 \<le> e then 2 ^ nat e else 1 / 2 ^ nat (- e))"

definition pow10 :: "int \<Rightarrow> rat" where
  "pow10 e = (if 0 \<le> e then 10 ^ nat e else 1 / 10 ^ nat (- e))"

text \<open>The number of digits of a positive integer in base \<open>b\<close>.\<close>

function ndigits :: "int \<Rightarrow> int \<Rightarrow> int" where
  "ndigits b n = (if n \<le> 0 \<or> b \<le> 1 then 0 else 1 + ndigits b (n div b))"
  by pat_completeness auto
termination
  by (relation "measure (\<lambda>(b, n). nat n)") (auto simp: int_div_less_self)

declare ndigits.simps [simp del]

text \<open>The floor of the binary and of the decimal logarithm of a positive rational.\<close>

definition ilog2 :: "rat \<Rightarrow> int" where
  "ilog2 a =
     (let (n, d) = quotient_of a; e0 = ndigits 2 n - ndigits 2 d
      in if pow2 e0 \<le> a then e0 else e0 - 1)"

definition ilog10 :: "rat \<Rightarrow> int" where
  "ilog10 a =
     (let (n, d) = quotient_of a; e0 = ndigits 10 n - ndigits 10 d
      in if pow10 e0 \<le> a then e0 else e0 - 1)"

definition round_half_even :: "rat \<Rightarrow> int" where
  "round_half_even r =
     (let f = \<lfloor>r\<rfloor>; d = r - of_int f
      in if d < 1 / 2 then f else if 1 / 2 < d then f + 1 else if even f then f else f + 1)"

text \<open>
  \<open>fl q\<close> is the double nearest to the real number \<open>q\<close>, ties to even: 53 significant
  bits, exponents from \<open>-1022\<close> (subnormal numbers below it) and overflow to infinity.
\<close>

definition fl :: "rat \<Rightarrow> jsnum" where
  "fl q =
     (if q = 0 then Fin 0
      else
        let a = \<bar>q\<bar>;
            e = max (ilog2 a) (- 1022);
            ulp = pow2 (e - 52);
            v = of_int (round_half_even (a / ulp)) * ulp
        in if pow2 1024 \<le> v then (if q < 0 then NInf else PInf)
           else Fin (if q < 0 then - v else v))"

fun js_neg :: "jsnum \<Rightarrow> jsnum" where
  "js_neg NaN = NaN"
| "js_neg PInf = NInf"
| "js_neg NInf = PInf"
| "js_neg (Fin q) = Fin (- q)"

text \<open>The operator \<open>+\<close> on two Numbers, and \<open>-\<close>.\<close>

fun js_add :: "jsnum \<Rightarrow> jsnum \<Rightarrow> jsnum" where
  "js_add NaN y = NaN"
| "js_add x NaN = NaN"
| "js_add PInf NInf = NaN"
| "js_add NInf PInf = NaN"
| "js_add PInf y = PInf"
| "js_add NInf y = NInf"
| "js_add x PInf = PInf"
| "js_add x NInf = NInf"
| "js_add (Fin a) (Fin b) = fl (a + b)"


text \<open>The comparison \<open>x < y\<close> of two Numbers: false when either is NaN.\<close>

fun js_lt :: "jsnum \<Rightarrow> jsnum \<Rightarrow> bool" where
  "js_lt NaN y = False"
| "js_lt x NaN = False"
| "js_lt PInf y = False"
| "js_lt x NInf = False"
| "js_lt NInf y = True"
| "js_lt x PInf = True"
| "js_lt (Fin a) (Fin b) = (a < b)"


text \<open>A Number as a condition: zero and NaN are false.\<close>

definition num_truthy :: "jsnum \<Rightarrow> bool" where
  "num_truthy x = (x \<noteq> NaN \<and> x \<noteq> Fin 0)"

subsection \<open>Numbers to strings\<close>

definition digit_char :: "nat \<Rightarrow> char" where
  "digit_char d = ''0123456789'' ! d"

fun show_nat :: "nat \<Rightarrow> string" where
  "show_nat n = (if n < 10 then [digit_char n] else show_nat (n div 10) @ [digit_char (n mod 10)])"

declare show_nat.simps [simp del]

text \<open>
  \<open>Number::toString\<close> of the language standard, radix 10. For a positive finite \<open>x\<close>
  it takes integers \<open>n\<close>, \<open>k\<close> and \<open>s\<close> with \<open>k\<close> digits in \<open>s\<close>, such that
  \<open>s * 10 ^ (n - k)\<close> rounds to \<open>x\<close>, with \<open>k\<close> as small as possible and, among these,
  \<open>s\<close> nearest to \<open>x\<close> (the even one of two).
\<close>

definition digit_candidates :: "rat \<Rightarrow> int \<Rightarrow> (int \<times> int) list" where
  "digit_candidates x k =
     (let n0 = ilog10 x + 1;
          sc = x * pow10 (k - n0);
          lo = \<lfloor>sc\<rfloor>;
          hi = (if of_int (lo + 1) = pow10 k then (\<lfloor>pow10 (k - 1)\<rfloor>, n0 + 1) else (lo + 1, n0));
          ok = (\<lambda>(s, n). fl (of_int s * pow10 (n - k)) = Fin x);
          lo_first = (sc - of_int lo < 1 / 2 \<or> (sc - of_int lo = 1 / 2 \<and> even lo))
      in filter ok (if lo_first then [(lo, n0), hi] else [hi, (lo, n0)]))"

definition shortest_digits :: "rat \<Rightarrow> int \<times> int" where
  "shortest_digits x =
     (case concat (map (digit_candidates x) [1 .. 17]) of
        [] \<Rightarrow> (\<lfloor>x * pow10 (17 - (ilog10 x + 1))\<rfloor>, ilog10 x + 1)
      | c # _ \<Rightarrow> c)"

definition format_digits :: "string \<Rightarrow> int \<Rightarrow> string" where
  "format_digits ds n =
     (let k = int (length ds);
          ex = (if n - 1 < 0 then ''-'' else ''+'') @ show_nat (nat \<bar>n - 1\<bar>)
      in if k \<le> n \<and> n \<le> 21 then ds @ replicate (nat (n - k)) (CHR ''0'')
         else if 0 < n \<and> n \<le> 21 then take (nat n) ds @ ''.'' @ drop (nat n) ds
         else if - 6 < n \<and> n \<le> 0 then ''0.'' @ replicate (nat (- n)) (CHR ''0'') @ ds
         else if k = 1 then ds @ ''e'' @ ex
         else take 1 ds @ ''.'' @ drop 1 ds @ ''e'' @ ex)"

definition pos_to_string :: "rat \<Rightarrow> string" where
  "pos_to_string x = (let (s, n) = shortest_digits x in format_digits (show_nat (nat s)) n)"

fun NumberToString :: "jsnum \<Rightarrow> string" where
  "NumberToString NaN = ''NaN''"
| "NumberToString PInf = ''Infinity''"
| "NumberToString NInf = ''-Infinity''"
| "NumberToString (Fin q) =
     (if q = 0 then ''0'' else if q < 0 then ''-'' @ pos_to_string (- q) else pos_to_string q)"

subsection \<open>Strings to numbers\<close>

definition is_digit :: "char \<Rightarrow> bool" where
  "is_digit c = (48 \<le> (of_char c :: nat) \<and> (of_char c :: nat) \<le> 57)"

definition digits_val :: "string \<Rightarrow> int" where
  "digits_val ds = foldl (\<lambda>a c. 10 * a + (int (of_char c) - 48)) 0 ds"

text \<open>White space and line terminators among the 8-bit characters.\<close>

definition is_ws :: "char \<Rightarrow> bool" where
  "is_ws c = ((of_char c :: nat) \<in> {9, 10, 11, 12, 13, 32, 160})"

definition parse_exponent :: "string \<Rightarrow> (int \<times> string) option" where
  "parse_exponent s =
     (case s of
        [] \<Rightarrow> None
      | c # t \<Rightarrow>
          if c = CHR ''e'' \<or> c = CHR ''E'' then
            (let (sg, u) =
                   (case t of
                      [] \<Rightarrow> (1, t)
                    | d # u' \<Rightarrow>
                        if d = CHR ''+'' then (1, u')
                        else if d = CHR ''-'' then (- 1, u') else (1, t));
                 ds = takeWhile is_digit u
             in if ds = [] then None else Some (sg * digits_val ds, dropWhile is_digit u))
          else None)"

text \<open>
  The longest prefix that is a \<open>StrUnsignedDecimalLiteral\<close>, its value as a double and
  the rest of the string. (For a literal of more than 20 significant digits the standard
  leaves the last place to the implementation; the model rounds the exact value, as the
  engines do.)
\<close>

definition parse_unsigned :: "string \<Rightarrow> (jsnum \<times> string) option" where
  "parse_unsigned s =
     (if take 8 s = ''Infinity'' then Some (PInf, drop 8 s)
      else
        let ip = takeWhile is_digit s;
            r1 = dropWhile is_digit s;
            (fp, r2) =
              (case r1 of
                 [] \<Rightarrow> ([], r1)
               | c # t \<Rightarrow>
                   if c = CHR ''.'' \<and> (ip \<noteq> [] \<or> takeWhile is_digit t \<noteq> [])
                   then (takeWhile is_digit t, dropWhile is_digit t)
                   else ([], r1))
        in if ip = [] \<and> fp = [] then None
           else
             let (ex, r3) = (case parse_exponent r2 of None \<Rightarrow> (0, r2) | Some p \<Rightarrow> p)
             in Some (fl (of_int (digits_val (ip @ fp)) * pow10 (ex - int (length fp))), r3))"

definition parse_signed :: "string \<Rightarrow> (jsnum \<times> string) option" where
  "parse_signed t =
     (case t of
        [] \<Rightarrow> None
      | c # r \<Rightarrow>
          if c = CHR ''-'' then map_option (\<lambda>(v, u). (js_neg v, u)) (parse_unsigned r)
          else if c = CHR ''+'' then parse_unsigned r
          else parse_unsigned t)"


text \<open>
  \<open>StringToNumber\<close>, the conversion of a string by \<open>ToNumber\<close>: the whole string, white
  space trimmed at both ends, is a decimal literal, or a hexadecimal, octal or binary
  integer literal; the empty string is zero.
\<close>

definition radix_digit :: "char \<Rightarrow> nat option" where
  "radix_digit c =
     (let n = (of_char c :: nat)
      in if 48 \<le> n \<and> n \<le> 57 then Some (n - 48)
         else if 97 \<le> n \<and> n \<le> 102 then Some (n - 87)
         else if 65 \<le> n \<and> n \<le> 70 then Some (n - 55)
         else None)"

definition parse_radix :: "nat \<Rightarrow> string \<Rightarrow> jsnum" where
  "parse_radix b ds =
     (if ds \<noteq> [] \<and> list_all (\<lambda>c. case radix_digit c of None \<Rightarrow> False | Some d \<Rightarrow> d < b) ds
      then fl (of_int (foldl (\<lambda>a c. int b * a + int (the (radix_digit c))) 0 ds))
      else NaN)"

definition StringToNumber :: "string \<Rightarrow> jsnum" where
  "StringToNumber s =
     (let t = rev (dropWhile is_ws (rev (dropWhile is_ws s)))
      in if t = [] then Fin 0
         else if take 2 t = ''0x'' \<or> take 2 t = ''0X'' then parse_radix 16 (drop 2 t)
         else if take 2 t = ''0o'' \<or> take 2 t = ''0O'' then parse_radix 8 (drop 2 t)
         else if take 2 t = ''0b'' \<or> take 2 t = ''0B'' then parse_radix 2 (drop 2 t)
         else (case parse_signed t of Some (v, []) \<Rightarrow> v | _ \<Rightarrow> NaN))"

subsection \<open>Values\<close>

datatype jv =
    JUndefined
  | JNull
  | JBool bool
  | JNum jsnum
  | JStr string
  | JArr "jv list"
  | JObj "(string \<times> jv) list"

text \<open>
  The errors that are thrown. \<open>Error m\<close> is built by the program with \<open>new Error(m)\<close>;
  \<open>TypeError\<close> and \<open>SyntaxError\<close> are raised by the engine and by the platform (a property
  read on \<open>null\<close> or \<open>undefined\<close>, a value that is not iterable or not a function, a
  \<open>fetch\<close> that fails on the network, a body that is not JSON), with messages that
  depend on the engine.
\<close>

datatype js_error = Error string | TypeError | SyntaxError

definition nullish :: "jv \<Rightarrow> bool" where
  "nullish v = (v = JUndefined \<or> v = JNull)"

fun js_truthy :: "jv \<Rightarrow> bool" where
  "js_truthy JUndefined = False"
| "js_truthy JNull = False"
| "js_truthy (JBool b) = b"
| "js_truthy (JNum n) = num_truthy n"
| "js_truthy (JStr s) = (s \<noteq> [])"
| "js_truthy (JArr xs) = True"
| "js_truthy (JObj kvs) = True"

text \<open>\<open>a || b\<close> and \<open>a ?? b\<close> on values that are already computed.\<close>

definition js_or :: "jv \<Rightarrow> jv \<Rightarrow> jv" where
  "js_or a b = (if js_truthy a then a else b)"

definition js_coalesce :: "jv \<Rightarrow> jv \<Rightarrow> jv" where
  "js_coalesce a b = (if nullish a then b else a)"

fun join_comma :: "string list \<Rightarrow> string" where
  "join_comma [] = []"
| "join_comma [s] = s"
| "join_comma (s # t # ss) = s @ '','' @ join_comma (t # ss)"

text \<open>\<open>ToString\<close>: an array is its elements joined by commas, \<open>null\<close> and \<open>undefined\<close> empty.\<close>

fun ToString :: "jv \<Rightarrow> string" where
  "ToString JUndefined = ''undefined''"
| "ToString JNull = ''null''"
| "ToString (JBool b) = (if b then ''true'' else ''false'')"
| "ToString (JNum n) = NumberToString n"
| "ToString (JStr s) = s"
| "ToString (JArr xs) = join_comma (map (\<lambda>x. if nullish x then [] else ToString x) xs)"
| "ToString (JObj kvs) = ''[object Object]''"

fun ToNumber :: "jv \<Rightarrow> jsnum" where
  "ToNumber JUndefined = NaN"
| "ToNumber JNull = Fin 0"
| "ToNumber (JBool b) = Fin (if b then 1 else 0)"
| "ToNumber (JNum n) = n"
| "ToNumber v = StringToNumber (ToString v)"


text \<open>
  \<open>v.name\<close> for a field name: \<open>js_prop\<close> is the property of a value that is neither
  \<open>null\<close> nor \<open>undefined\<close>, \<open>js_get\<close> throws on these two and \<open>js_get_opt\<close> is \<open>v?.name\<close>.
  A missing property is \<open>undefined\<close>; arrays and strings have a \<open>length\<close>.
\<close>

fun js_prop :: "jv \<Rightarrow> string \<Rightarrow> jv" where
  "js_prop (JObj kvs) k = (case map_of kvs k of None \<Rightarrow> JUndefined | Some v \<Rightarrow> v)"
| "js_prop (JArr xs) k = (if k = ''length'' then JNum (Fin (of_nat (length xs))) else JUndefined)"
| "js_prop (JStr s) k = (if k = ''length'' then JNum (Fin (of_nat (length s))) else JUndefined)"
| "js_prop v k = JUndefined"

definition js_get :: "jv \<Rightarrow> string \<Rightarrow> js_error + jv" where
  "js_get v k = (if nullish v then Inl TypeError else Inr (js_prop v k))"

definition js_get_opt :: "jv \<Rightarrow> string \<Rightarrow> jv" where
  "js_get_opt v k = (if nullish v then JUndefined else js_prop v k)"




text \<open>\<open>for (const x of v)\<close>: the elements of an array, the characters of a string.\<close>

fun js_iter :: "jv \<Rightarrow> js_error + jv list" where
  "js_iter (JArr xs) = Inr xs"
| "js_iter (JStr s) = Inr (map (\<lambda>c. JStr [c]) s)"
| "js_iter v = Inl TypeError"

text \<open>
  The own enumerable properties that \<open>{...v}\<close> copies, and the assignment of one property
  to an object under construction.
\<close>

fun own_props :: "jv \<Rightarrow> (string \<times> jv) list" where
  "own_props (JObj kvs) = kvs"
| "own_props (JArr xs) = map (\<lambda>i. (show_nat i, xs ! i)) [0 ..< length xs]"
| "own_props (JStr s) = map (\<lambda>i. (show_nat i, JStr [s ! i])) [0 ..< length s]"
| "own_props v = []"

fun obj_set :: "(string \<times> jv) list \<Rightarrow> string \<Rightarrow> jv \<Rightarrow> (string \<times> jv) list" where
  "obj_set [] k v = [(k, v)]"
| "obj_set ((k', v') # kvs) k v = (if k' = k then (k, v) # kvs else (k', v') # obj_set kvs k v)"

definition spread_into :: "(string \<times> jv) list \<Rightarrow> jv \<Rightarrow> (string \<times> jv) list" where
  "spread_into kvs v = foldl (\<lambda>acc (k, x). obj_set acc k x) kvs (own_props v)"

section \<open>Configuration (config.js)\<close>

definition CONFIG_gatewayUrl :: string where
  "CONFIG_gatewayUrl = ''https://stokenet.radixdlt.com''"


text \<open>Both times to live are \<open>Infinity\<close>.\<close>

definition CONFIG_cacheTtl_resourceMetadata :: jsnum where
  "CONFIG_cacheTtl_resourceMetadata = PInf"

definition CONFIG_cacheTtl_accountResources :: jsnum where
  "CONFIG_cacheTtl_accountResources = PInf"

section \<open>The state of the application and its environment\<close>

text \<open>
  A text kept in \<open>localStorage\<close> is modelled by what \<open>JSON.parse\<close> makes of it: a value,
  or a syntax error.
\<close>

datatype ls_text = Json jv | NotJson

record session_item =
  item_value :: jv
  item_expiry :: jsnum

text \<open>
  \<open>world\<close> is the state of everything outside the program (the network, the Gateway,
  the clock); \<open>sent\<close> records the requests handed to \<open>fetch\<close>, endpoint and body, in the
  order they are made; \<open>quota_exceeded\<close> holds when \<open>localStorage.setItem\<close> throws;
  \<open>sessionData\<close> is the Map of \<open>sessionCache\<close>; the last two are the fields of the modal
  dialogue.
\<close>

record 'w app =
  world :: 'w
  sent :: "(string \<times> jv) list"
  localStorage :: "string \<rightharpoonup> ls_text"
  quota_exceeded :: bool
  sessionData :: "string \<rightharpoonup> session_item"
  caveBalancesData :: "string \<rightharpoonup> jv"
  caveResourceMetadata :: "string \<rightharpoonup> jv"

text \<open>
  What \<open>fetch\<close> gives for a POST of a body to a URL: a network failure (the promise is
  rejected with a \<open>TypeError\<close>), or a response with its status and its body as
  \<open>response.json()\<close> decodes it (\<open>None\<close> when that promise is rejected).
\<close>

datatype fetch_outcome = NetworkError | Response nat "jv option"

record 'w env =
  fetch :: "'w \<Rightarrow> string \<Rightarrow> jv \<Rightarrow> fetch_outcome \<times> 'w"
  clock :: "'w \<Rightarrow> int"

definition Date_now :: "'w env \<Rightarrow> 'w app \<Rightarrow> jsnum" where
  "Date_now env s = Fin (of_int (clock env (world s)))"

section \<open>The caches (cache.js)\<close>

definition CACHE_PREFIX :: string where
  "CACHE_PREFIX = ''hypercave_''"

text \<open>
  \<open>JSON.parse(JSON.stringify(v))\<close>: a number that is not finite becomes \<open>null\<close>, a
  property whose value is \<open>undefined\<close> is left out, \<open>undefined\<close> in an array becomes
  \<open>null\<close>. (A finite number is printed with the digits that read back as the same number.)
\<close>

fun json_norm :: "jv \<Rightarrow> jv" where
  "json_norm (JNum n) = (case n of Fin q \<Rightarrow> JNum n | _ \<Rightarrow> JNull)"
| "json_norm (JArr xs) = JArr (map (\<lambda>x. if x = JUndefined then JNull else json_norm x) xs)"
| "json_norm (JObj kvs) =
     JObj (map (\<lambda>kv. (fst kv, json_norm (snd kv))) (filter (\<lambda>kv. snd kv \<noteq> JUndefined) kvs))"
| "json_norm v = v"

text \<open>\<open>cache.get(key)\<close>: the value, and the state (an expired entry is removed).\<close>

definition cache_get :: "'w env \<Rightarrow> string \<Rightarrow> 'w app \<Rightarrow> jv \<times> 'w app" where
  "cache_get env key s =
     (case localStorage s (CACHE_PREFIX @ key) of
        None \<Rightarrow> (JNull, s)
      | Some NotJson \<Rightarrow> (JNull, s)
      | Some (Json item) \<Rightarrow>
          if nullish item then (JNull, s)
          else
            let val = js_prop item ''value''; expiry = js_prop item ''expiry''
            in if expiry \<noteq> JNum PInf \<and> js_lt (ToNumber expiry) (Date_now env s)
               then (JNull, s\<lparr>localStorage := (localStorage s)(CACHE_PREFIX @ key := None)\<rparr>)
               else (val, s))"

text \<open>\<open>cache.set(key, value, ttlMs)\<close>; a failed write is caught and logged.\<close>

definition cache_set :: "'w env \<Rightarrow> string \<Rightarrow> jv \<Rightarrow> jsnum \<Rightarrow> 'w app \<Rightarrow> 'w app" where
  "cache_set env key val ttlMs s =
     (let item = JObj [(''value'', val), (''expiry'', JNum (js_add (Date_now env s) ttlMs))]
      in if quota_exceeded s then s
         else s\<lparr>localStorage := (localStorage s)(CACHE_PREFIX @ key \<mapsto> Json (json_norm item))\<rparr>)"

definition sessionCache_get :: "'w env \<Rightarrow> string \<Rightarrow> 'w app \<Rightarrow> jv \<times> 'w app" where
  "sessionCache_get env key s =
     (case sessionData s key of
        None \<Rightarrow> (JNull, s)
      | Some item \<Rightarrow>
          if item_expiry item \<noteq> PInf \<and> js_lt (item_expiry item) (Date_now env s)
          then (JNull, s\<lparr>sessionData := (sessionData s)(key := None)\<rparr>)
          else (item_value item, s))"

definition sessionCache_set :: "'w env \<Rightarrow> string \<Rightarrow> jv \<Rightarrow> jsnum \<Rightarrow> 'w app \<Rightarrow> 'w app" where
  "sessionCache_set env key val ttlMs s =
     s\<lparr>sessionData := (sessionData s)
        (key \<mapsto> \<lparr>item_value = val, item_expiry = js_add (Date_now env s) ttlMs\<rparr>)\<rparr>"


section \<open>The Gateway client (gateway.js)\<close>

text \<open>
  \<open>gatewayFetch(endpoint, body)\<close>. The call of \<open>rateLimiter.acquire()\<close> before the
  request only delays it: it resolves to \<open>true\<close> and nothing modelled here reads the
  limiter. One call hands one request to \<open>fetch\<close>.
\<close>

definition gatewayFetch ::
  "'w env \<Rightarrow> string \<Rightarrow> jv \<Rightarrow> 'w app \<Rightarrow> (js_error + jv) \<times> 'w app" where
  "gatewayFetch env endpoint body s =
     (case fetch env (world s) (CONFIG_gatewayUrl @ endpoint) body of
        (outcome, w) \<Rightarrow>
          let s' = s\<lparr>world := w, sent := sent s @ [(endpoint, body)]\<rparr>
          in case outcome of
               NetworkError \<Rightarrow> (Inl TypeError, s')
             | Response status json \<Rightarrow>
                 if \<not> (200 \<le> status \<and> status \<le> 299) then
                   (let errorData = (case json of None \<Rightarrow> JObj [] | Some d \<Rightarrow> d)
                    in case js_get errorData ''message'' of
                         Inl e \<Rightarrow> (Inl e, s')
                       | Inr m \<Rightarrow>
                           (Inl (Error (if js_truthy m then ToString m
                                        else ''Gateway error: '' @ show_nat status)), s'))
                 else (case json of None \<Rightarrow> (Inl SyntaxError, s') | Some d \<Rightarrow> (Inr d, s')))"

text \<open>\<open>shortenAddress(address, startLen, endLen)\<close> of utils.js.\<close>

definition js_le :: "jsnum \<Rightarrow> jsnum \<Rightarrow> bool" where
  "js_le x y = (x \<noteq> NaN \<and> y \<noteq> NaN \<and> \<not> js_lt y x)"

fun shortenAddress :: "jv \<Rightarrow> nat \<Rightarrow> nat \<Rightarrow> js_error + jv" where
  "shortenAddress (JStr s) startLen endLen =
     (if s = [] \<or> length s \<le> startLen + endLen + 3 then Inr (JStr s)
      else Inr (JStr (take startLen s @ ''...'' @
                      drop (if endLen = 0 then 0 else length s - endLen) s)))"
| "shortenAddress (JArr xs) startLen endLen =
     (if length xs \<le> startLen + endLen + 3 then Inr (JArr xs)
      else Inr (JStr (ToString (JArr (take startLen xs)) @ ''...'' @
                      ToString (JArr (drop (if endLen = 0 then 0 else length xs - endLen) xs)))))"
| "shortenAddress (JObj kvs) startLen endLen =
     (if js_le (ToNumber (js_prop (JObj kvs) ''length'')) (Fin (of_nat (startLen + endLen + 3)))
      then Inr (JObj kvs) else Inl TypeError)"
| "shortenAddress v startLen endLen = (if js_truthy v then Inl TypeError else Inr v)"

text \<open>\<open>extractMetadata(items)\<close>.\<close>

fun extract_loop :: "jv list \<Rightarrow> (string \<rightharpoonup> jv) \<Rightarrow> js_error + (string \<rightharpoonup> jv)" where
  "extract_loop [] result = Inr result"
| "extract_loop (item # items) result =
     (case js_get item ''value'' of
        Inl e \<Rightarrow> Inl e
      | Inr v \<Rightarrow>
          let typedValue = js_get_opt v ''typed''
          in if js_truthy typedValue \<and> js_prop typedValue ''value'' \<noteq> JUndefined
             then extract_loop items
                    (result(ToString (js_prop item ''key'') \<mapsto> js_prop typedValue ''value''))
             else extract_loop items result)"

definition extractMetadata :: "jv \<Rightarrow> js_error + (string \<rightharpoonup> jv)" where
  "extractMetadata items =
     (case js_iter items of Inl e \<Rightarrow> Inl e | Inr xs \<Rightarrow> extract_loop xs Map.empty)"

definition lookup :: "(string \<rightharpoonup> jv) \<Rightarrow> string \<Rightarrow> jv" where
  "lookup m k = (case m k of None \<Rightarrow> JUndefined | Some v \<Rightarrow> v)"

text \<open>The body of the loop of \<open>getResourceMetadata\<close> over \<open>data.items\<close>: \<open>resourceData\<close>.\<close>

definition resourceData :: "jv \<Rightarrow> js_error + jv" where
  "resourceData item =
     (case js_get item ''explicit_metadata'' of
        Inl e \<Rightarrow> Inl e
      | Inr em \<Rightarrow>
          (case extractMetadata (js_or (js_get_opt em ''items'') (JArr [])) of
             Inl e \<Rightarrow> Inl e
           | Inr meta \<Rightarrow>
               let details = js_prop item ''details'';
                   divisibility =
                     (if js_get_opt details ''type'' = JStr ''FungibleResource''
                      then js_coalesce (js_prop details ''divisibility'') (JNum (Fin 18))
                      else JNum (Fin 18));
                   address = js_prop item ''address''
               in case (if js_truthy (lookup meta ''name'') then Inr (lookup meta ''name'')
                        else shortenAddress address 15 6) of
                    Inl e \<Rightarrow> Inl e
                  | Inr name \<Rightarrow>
                      Inr (JObj
                        [(''address'', address),
                         (''name'', name),
                         (''symbol'', js_or (lookup meta ''symbol'') (JStr [])),
                         (''iconUrl'', js_or (lookup meta ''icon_url'') JNull),
                         (''description'', js_or (lookup meta ''description'') (JStr [])),
                         (''entityType'', js_get_opt details ''type''),
                         (''divisibility'', divisibility)])))"

fun resolve_items ::
  "'w env \<Rightarrow> jv list \<Rightarrow> (string \<rightharpoonup> jv) \<Rightarrow> 'w app \<Rightarrow> (js_error + (string \<rightharpoonup> jv)) \<times> 'w app" where
  "resolve_items env [] results s = (Inr results, s)"
| "resolve_items env (item # items) results s =
     (case resourceData item of
        Inl e \<Rightarrow> (Inl e, s)
      | Inr rd \<Rightarrow>
          let a = ToString (js_prop item ''address'')
          in resolve_items env items (results(a \<mapsto> rd))
               (cache_set env (''resource:'' @ a) rd CONFIG_cacheTtl_resourceMetadata s))"

text \<open>The first loop of \<open>getResourceMetadata\<close>: cached addresses and addresses to fetch.\<close>

fun partition_cached ::
  "'w env \<Rightarrow> jv list \<Rightarrow> (string \<rightharpoonup> jv) \<Rightarrow> jv list \<Rightarrow> 'w app \<Rightarrow>
     (string \<rightharpoonup> jv) \<times> jv list \<times> 'w app" where
  "partition_cached env [] results toFetch s = (results, toFetch, s)"
| "partition_cached env (addr # addrs) results toFetch s =
     (case cache_get env (''resource:'' @ ToString addr) s of
        (cached, s') \<Rightarrow>
          if js_truthy cached
          then partition_cached env addrs (results(ToString addr \<mapsto> cached)) toFetch s'
          else partition_cached env addrs results (toFetch @ [addr]) s')"

definition details_request :: "jv list \<Rightarrow> jv" where
  "details_request toFetch =
     JObj [(''addresses'', JArr toFetch),
           (''aggregation_level'', JStr ''Global''),
           (''opt_ins'', JObj [(''explicit_metadata'',
              JArr [JStr ''name'', JStr ''symbol'', JStr ''icon_url'', JStr ''description''])])]"

definition getResourceMetadata ::
  "'w env \<Rightarrow> jv list \<Rightarrow> 'w app \<Rightarrow> (js_error + (string \<rightharpoonup> jv)) \<times> 'w app" where
  "getResourceMetadata env addresses s =
     (case partition_cached env addresses Map.empty [] s of
        (results, toFetch, s1) \<Rightarrow>
          if toFetch \<noteq> [] then
            (case gatewayFetch env ''/state/entity/details'' (details_request toFetch) s1 of
               (Inl e, s2) \<Rightarrow> (Inl e, s2)
             | (Inr data, s2) \<Rightarrow>
                 (case js_get data ''items'' of
                    Inl e \<Rightarrow> (Inl e, s2)
                  | Inr its \<Rightarrow>
                      (case js_iter its of
                         Inl e \<Rightarrow> (Inl e, s2)
                       | Inr xs \<Rightarrow> resolve_items env xs results s2)))
          else (Inr results, s1))"

text \<open>
  A \<open>do ... while\<close> loop that may run for ever: the body gives the result of the function
  (\<open>Done\<close>: the loop ended, or an exception left it) or the state of the next round.
\<close>

datatype ('r, 'x) step = Done 'r | Again 'x

partial_function (option) js_do_while :: "('x \<Rightarrow> ('r, 'x) step) \<Rightarrow> 'x \<Rightarrow> 'r option" where
  "js_do_while body x = (case body x of Done r \<Rightarrow> Some r | Again x' \<Rightarrow> js_do_while body x')"

text \<open>\<open>getAccountFungibles(accountAddress)\<close>: one page of the loop, then the function.\<close>

fun fungible_items :: "jv list \<Rightarrow> js_error + jv list" where
  "fungible_items [] = Inr []"
| "fungible_items (item # items) =
     (case js_get item ''resource_address'' of
        Inl e \<Rightarrow> Inl e
      | Inr ra \<Rightarrow>
          (case fungible_items items of
             Inl e \<Rightarrow> Inl e
           | Inr r \<Rightarrow> Inr (JObj [(''resourceAddress'', ra), (''amount'', js_prop item ''amount'')] # r)))"

definition fungibles_request :: "string \<Rightarrow> jv \<Rightarrow> jv" where
  "fungibles_request accountAddress cursor =
     JObj ([(''address'', JStr accountAddress), (''aggregation_level'', JStr ''Global'')] @
           (if js_truthy cursor then [(''cursor'', cursor)] else []))"

definition fungibles_page ::
  "'w env \<Rightarrow> string \<Rightarrow> jv \<times> jv list \<times> 'w app \<Rightarrow>
     ((js_error + jv list) \<times> 'w app, jv \<times> jv list \<times> 'w app) step" where
  "fungibles_page env accountAddress x =
     (case x of
        (cursor, items, s) \<Rightarrow>
          (case gatewayFetch env ''/state/entity/page/fungibles/''
                  (fungibles_request accountAddress cursor) s of
             (Inl e, s') \<Rightarrow> Done (Inl e, s')
           | (Inr data, s') \<Rightarrow>
               (case js_get data ''items'' of
                  Inl e \<Rightarrow> Done (Inl e, s')
                | Inr its \<Rightarrow>
                    (case js_iter its of
                       Inl e \<Rightarrow> Done (Inl e, s')
                     | Inr xs \<Rightarrow>
                         (case fungible_items xs of
                            Inl e \<Rightarrow> Done (Inl e, s')
                          | Inr new \<Rightarrow>
                              let cursor' = js_prop data ''next_cursor''
                              in if js_truthy cursor' then Again (cursor', items @ new, s')
                                 else Done (Inr (items @ new), s'))))))"

definition merge_metadata :: "(string \<rightharpoonup> jv) \<Rightarrow> jv \<Rightarrow> jv" where
  "merge_metadata metadata item =
     JObj (spread_into (spread_into [] item)
             (lookup metadata (ToString (js_prop item ''resourceAddress''))))"

definition getAccountFungibles ::
  "'w env \<Rightarrow> string \<Rightarrow> 'w app \<Rightarrow> ((js_error + jv) \<times> 'w app) option" where
  "getAccountFungibles env accountAddress s =
     (case sessionCache_get env (''fungibles:'' @ accountAddress) s of
        (cached, s0) \<Rightarrow>
          if js_truthy cached then Some (Inr cached, s0)
          else
            (case js_do_while (fungibles_page env accountAddress) (JNull, [], s0) of
               None \<Rightarrow> None
             | Some (Inl e, s1) \<Rightarrow> Some (Inl e, s1)
             | Some (Inr items, s1) \<Rightarrow>
                 (case getResourceMetadata env
                         (map (\<lambda>item. js_prop item ''resourceAddress'') items) s1 of
                    (Inl e, s2) \<Rightarrow> Some (Inl e, s2)
                  | (Inr metadata, s2) \<Rightarrow>
                      let result = JArr (map (merge_metadata metadata) items)
                      in Some (Inr result,
                               sessionCache_set env (''fungibles:'' @ accountAddress) result
                                 CONFIG_cacheTtl_accountResources s2))))"










section \<open>The modal dialogue (ui.js) and the transaction handler (main.js)\<close>



record resource =
  resourceAddress :: string
  amount :: jv
  symbol :: jv
  iconUrl :: jv






text \<open>The application when it starts: nothing stored, nothing sent.\<close>

definition start_app :: "'w \<Rightarrow> 'w app" where
  "start_app w =
     \<lparr>world = w, sent = [], localStorage = Map.empty, quota_exceeded = False,
      sessionData = Map.empty, caveBalancesData = Map.empty, caveResourceMetadata = Map.empty\<rparr>"

section \<open>Terms of the properties\<close>









text \<open>
  The holding that \<open>getAccountFungibles\<close> makes of an item of a page. \<open>serves_pages\<close>
  says that the Gateway, asked for the fungibles of an account with the cursor it gave
  last (none at first), answers with the given pages one after the other: each page has
  its items and its \<open>next_cursor\<close>, which is true as a condition on every page but the last.
  \<open>page_requests\<close> are the requests that go with these pages.
\<close>

definition holding :: "jv \<Rightarrow> jv" where
  "holding item =
     JObj [(''resourceAddress'', js_prop item ''resource_address''), (''amount'', js_prop item ''amount'')]"

fun serves_pages :: "'w env \<Rightarrow> string \<Rightarrow> 'w \<Rightarrow> jv \<Rightarrow> (jv list \<times> jv) list \<Rightarrow> bool" where
  "serves_pages env account w cursor [] = False"
| "serves_pages env account w cursor ((items, next) # pages) =
     (case fetch env w (CONFIG_gatewayUrl @ ''/state/entity/page/fungibles/'')
             (fungibles_request account cursor) of
        (Response status (Some data), w') \<Rightarrow>
          200 \<le> status \<and> status \<le> 299 \<and> \<not> nullish data
          \<and> js_prop data ''items'' = JArr items \<and> js_prop data ''next_cursor'' = next
          \<and> (if pages = [] then \<not> js_truthy next
              else js_truthy next \<and> serves_pages env account w' next pages)
      | _ \<Rightarrow> False)"

definition page_requests :: "string \<Rightarrow> (jv list \<times> jv) list \<Rightarrow> (string \<times> jv) list" where
  "page_requests account pages =
     map (\<lambda>c. (''/state/entity/page/fungibles/'', fungibles_request account c))
       (JNull # map snd (butlast pages))"

text \<open>Gateways for the examples: one that cannot be reached, one that answers every
  request with status 500 and the body \<open>null\<close>, one that serves three pages of fungibles by
  cursor, and one whose first page ends with the empty string as its cursor.\<close>

definition env_offline :: "unit env" where
  "env_offline = \<lparr>fetch = (\<lambda>w url body. (NetworkError, w)), clock = (\<lambda>w. 1700000000000)\<rparr>"

definition env_error_null :: "unit env" where
  "env_error_null = \<lparr>fetch = (\<lambda>w url body. (Response 500 (Some JNull), w)), clock = (\<lambda>w. 1700000000000)\<rparr>"

definition page_of :: "jv list \<Rightarrow> jv \<Rightarrow> jv" where
  "page_of items next = JObj [(''items'', JArr items), (''next_cursor'', next)]"

definition fungible :: "string \<Rightarrow> string \<Rightarrow> jv" where
  "fungible a n = JObj [(''resource_address'', JStr a), (''amount'', JStr n)]"

definition env_three_pages :: "unit env" where
  "env_three_pages =
     \<lparr>fetch = (\<lambda>w url body.
         if js_prop body ''cursor'' = JUndefined
           then (Response 200 (Some (page_of [fungible ''resource_a'' ''1'', fungible ''resource_b'' ''2''] (JStr ''c1''))), w)
         else if js_prop body ''cursor'' = JStr ''c1''
           then (Response 200 (Some (page_of [fungible ''resource_c'' ''3''] (JStr ''c2''))), w)
         else if js_prop body ''cursor'' = JStr ''c2''
           then (Response 200 (Some (page_of [fungible ''resource_d'' ''4''] JNull)), w)
         else (Response 400 None, w)),
      clock = (\<lambda>w. 1700000000000)\<rparr>"

definition env_empty_cursor :: "nat env" where
  "env_empty_cursor =
     \<lparr>fetch = (\<lambda>w url body.
         if w = 0 then (Response 200 (Some (page_of [fungible ''resource_a'' ''1''] (JStr []))), Suc w)
         else (Response 200 (Some (page_of [fungible ''resource_b'' ''2''] JNull)), Suc w)),
      clock = (\<lambda>w. 1700000000000)\<rparr>"


text \<open>A Gateway that knows three resources; the second has no name.\<close>

definition res_a :: string where
  "res_a = ''resource_tdx_2_1tknxxxxxxxxxradxrdxxxxxxxxx009923554798xxxxxxxxxtfd2jc''"

definition res_b :: string where
  "res_b = ''resource_tdx_2_1t4kep9ldg9t0cszj78z6fcr2zvfxfq7muetq7pry4mzrkl8r0mwxj5''"

definition res_c :: string where
  "res_c = ''resource_tdx_2_1ngaraf7ggkr6wfvnl5jpkuqumdfhqdr6ptqxbnskyccxfcnxc5b5k2''"

definition metadata_entry :: "string \<times> string \<Rightarrow> jv" where
  "metadata_entry kv =
     JObj [(''key'', JStr (fst kv)),
           (''value'', JObj [(''typed'', JObj [(''type'', JStr ''String''), (''value'', JStr (snd kv))])])]"

definition details_item :: "string \<Rightarrow> (string \<times> string) list \<Rightarrow> jv \<Rightarrow> jv" where
  "details_item a md details =
     JObj [(''address'', JStr a),
           (''explicit_metadata'', JObj [(''items'', JArr (map metadata_entry md))]),
           (''details'', details)]"

definition fungible_details :: "jv \<Rightarrow> jv" where
  "fungible_details d = JObj [(''type'', JStr ''FungibleResource''), (''divisibility'', d)]"

definition known_resources :: "jv list" where
  "known_resources =
     [details_item res_a [(''name'', ''Radix''), (''symbol'', ''XRD'')] (fungible_details (JNum (Fin 18))),
      details_item res_b [(''symbol'', ''NON'')] (fungible_details (JNum (Fin 0))),
      details_item res_c [(''name'', ''Caveman'')] (JObj [(''type'', JStr ''NonFungibleResource'')])]"

definition requested :: "jv \<Rightarrow> jv list" where
  "requested body = (case js_iter (js_prop body ''addresses'') of Inl e \<Rightarrow> [] | Inr xs \<Rightarrow> xs)"

definition env_details :: "unit env" where
  "env_details =
     \<lparr>fetch = (\<lambda>w url body.
         (Response 200
            (Some (JObj [(''items'',
               JArr (filter (\<lambda>item. js_prop item ''address'' \<in> set (requested body))
                       known_resources))])), w)),
      clock = (\<lambda>w. 1700000000000)\<rparr>"





section \<open>Properties\<close>

subsection \<open>The balance decoder\<close>
















subsection \<open>Reconciliation after a transaction\<close>







subsection \<open>The Gateway client\<close>

lemmas fixture_defs = known_resources_def details_item_def fungible_details_def metadata_entry_def
  env_details_def requested_def res_a_def res_b_def res_c_def start_app_def

lemmas eval_defs = resourceData_def js_get_def nullish_def js_get_opt_def js_or_def
  extractMetadata_def lookup_def js_coalesce_def Let_def getResourceMetadata_def cache_get_def
  gatewayFetch_def details_request_def cache_set_def CONFIG_cacheTtl_resourceMetadata_def
  Date_now_def CACHE_PREFIX_def

lemma gatewayFetch_transport:
  "fst (fetch env (world s) (CONFIG_gatewayUrl @ endpoint) body) = NetworkError \<Longrightarrow>
   fst (gatewayFetch env endpoint body s) = Inl TypeError"
  by (auto simp: gatewayFetch_def split: prod.splits)

lemma gatewayFetch_error_message:
  assumes "fst (fetch env (world s) (CONFIG_gatewayUrl @ endpoint) body) = Response status json"
    and "\<not> (200 \<le> status \<and> status \<le> 299)" and "json \<noteq> Some JNull" and "json \<noteq> Some JUndefined"
  shows "fst (gatewayFetch env endpoint body s) =
     Inl (Error (if js_truthy (case json of None \<Rightarrow> JUndefined | Some d \<Rightarrow> js_prop d ''message'')
                 then ToString (case json of None \<Rightarrow> JUndefined | Some d \<Rightarrow> js_prop d ''message'')
                 else ''Gateway error: '' @ show_nat status))"
  using assms
  by (cases json) (auto simp: gatewayFetch_def js_get_def nullish_def split: prod.splits)

lemma gatewayFetch_sent:
  "sent (snd (gatewayFetch env endpoint body s)) = sent s @ [(endpoint, body)]"
  by (simp add: gatewayFetch_def Let_def split: prod.splits fetch_outcome.splits option.splits sum.splits)


text \<open>
  C7. Evaluated where the claim fails: a response with status 500 whose body is the JSON
  text \<open>null\<close>. The message is read from \<open>null\<close>, so that \<open>gatewayFetch\<close> fails with the
  engine's \<open>TypeError\<close>: not with an \<open>Error\<close> that carries the status code, and with the
  error that a request which never reached the network fails with.
\<close>

theorem gatewayFetch_null_error_body:
  "fst (gatewayFetch env_error_null ''/status/gateway-status'' (JObj []) (start_app ())) = Inl TypeError
   \<and> fst (gatewayFetch env_error_null ''/status/gateway-status'' (JObj []) (start_app ()))
        \<noteq> Inl (Error (''Gateway error: '' @ show_nat 500))
   \<and> fst (gatewayFetch env_offline ''/status/gateway-status'' (JObj []) (start_app ())) = Inl TypeError"
  by (simp add: gatewayFetch_def env_error_null_def env_offline_def start_app_def js_get_def nullish_def)

subsection \<open>Discovery of the tokens of the vault\<close>


lemma sessionCache_get_rest:
  "world (snd (sessionCache_get env key s)) = world s"
  "sent (snd (sessionCache_get env key s)) = sent s"
  by (auto simp: sessionCache_get_def split: option.splits)

lemma do_while_Done: "body x = Done r \<Longrightarrow> js_do_while body x = Some r"
  by (subst js_do_while.simps) simp

lemma do_while_Again: "body x = Again x' \<Longrightarrow> js_do_while body x = js_do_while body x'"
  by (subst js_do_while.simps) simp






subsection \<open>Pagination\<close>

lemma fungible_items_ok:
  "\<forall>item \<in> set xs. \<not> nullish item \<Longrightarrow> fungible_items xs = Inr (map holding xs)"
  by (induction xs) (simp_all add: js_get_def holding_def)

lemma fungibles_page_served:
  assumes "fetch env (world s) (CONFIG_gatewayUrl @ ''/state/entity/page/fungibles/'')
             (fungibles_request account cursor) = (Response status (Some data), w')"
    and "200 \<le> status" "status \<le> 299" "\<not> nullish data" "js_prop data ''items'' = JArr items"
    and "\<forall>item \<in> set items. \<not> nullish item"
  shows "fungibles_page env account (cursor, acc, s) =
     (if js_truthy (js_prop data ''next_cursor'')
      then Again (js_prop data ''next_cursor'', acc @ map holding items,
                  s\<lparr>world := w', sent := sent s @ [(''/state/entity/page/fungibles/'', fungibles_request account cursor)]\<rparr>)
      else Done (Inr (acc @ map holding items),
                  s\<lparr>world := w', sent := sent s @ [(''/state/entity/page/fungibles/'', fungibles_request account cursor)]\<rparr>))"
  using assms
  by (simp add: fungibles_page_def gatewayFetch_def js_get_def fungible_items_ok Let_def)

lemma pages_loop:
  "serves_pages env account (world s) cursor pages \<Longrightarrow>
   \<forall>p \<in> set pages. \<forall>item \<in> set (fst p). \<not> nullish item \<Longrightarrow>
   \<exists>s'. js_do_while (fungibles_page env account) (cursor, acc, s) =
           Some (Inr (acc @ concat (map (\<lambda>p. map holding (fst p)) pages)), s')
       \<and> sent s' = sent s @ map (\<lambda>c. (''/state/entity/page/fungibles/'', fungibles_request account c))
                             (cursor # map snd (butlast pages))"
proof (induction pages arbitrary: cursor acc s)
  case Nil
  then show ?case by simp
next
  case (Cons p pages)
  obtain items "next" where p: "p = (items, next)" by (cases p)
  from Cons.prems(1) p obtain status data w' where
    f: "fetch env (world s) (CONFIG_gatewayUrl @ ''/state/entity/page/fungibles/'')
          (fungibles_request account cursor) = (Response status (Some data), w')"
    and ok: "200 \<le> status" "status \<le> 299" "\<not> nullish data" "js_prop data ''items'' = JArr items"
    and nx: "js_prop data ''next_cursor'' = next"
    and rest: "if pages = [] then \<not> js_truthy next else js_truthy next \<and> serves_pages env account w' next pages"
    by (auto split: prod.splits fetch_outcome.splits option.splits)
  have wf: "\<forall>item \<in> set items. \<not> nullish item" using Cons.prems(2) p by simp
  let ?s1 = "s\<lparr>world := w', sent := sent s @ [(''/state/entity/page/fungibles/'', fungibles_request account cursor)]\<rparr>"
  note pg = fungibles_page_served[OF f ok wf, of acc, unfolded nx]
  show ?case
  proof (cases "pages = []")
    case True
    then show ?thesis using rest pg p by (simp add: do_while_Done)
  next
    case False
    then have tr: "js_truthy next" and sv: "serves_pages env account (world ?s1) next pages"
      using rest by simp_all
    have wf': "\<forall>p \<in> set pages. \<forall>item \<in> set (fst p). \<not> nullish item" using Cons.prems(2) by simp
    from Cons.IH[OF sv wf', of "acc @ map holding items"] obtain s' where
      l: "js_do_while (fungibles_page env account) (next, acc @ map holding items, ?s1) =
           Some (Inr ((acc @ map holding items) @ concat (map (\<lambda>p. map holding (fst p)) pages)), s')"
      and st: "sent s' = sent ?s1 @ map (\<lambda>c. (''/state/entity/page/fungibles/'', fungibles_request account c))
                             (next # map snd (butlast pages))"
      by blast
    have "js_do_while (fungibles_page env account) (cursor, acc, s) =
          js_do_while (fungibles_page env account) (next, acc @ map holding items, ?s1)"
      using pg tr by (simp add: do_while_Again)
    then show ?thesis using l st p False by simp
  qed
qed

text \<open>
  C9 (as amended). When the Gateway serves \<open>n\<close> pages whose items are not \<open>null\<close>, with a
  \<open>next_cursor\<close> that is true as a condition (not \<open>null\<close>, not absent, not the empty
  string, not zero) on each of the first \<open>n - 1\<close> and false on the last, the loop of
  \<open>getAccountFungibles\<close> returns the holdings of all pages in the order of the pages,
  after exactly \<open>n\<close> requests: the first without a \<open>cursor\<close> field, each later one with
  the cursor of the response before it.
\<close>

theorem fungibles_pagination:
  "serves_pages env account (world s) JNull pages \<Longrightarrow>
   \<forall>p \<in> set pages. \<forall>item \<in> set (fst p). \<not> nullish item \<Longrightarrow>
   \<exists>s'. js_do_while (fungibles_page env account) (JNull, [], s) =
           Some (Inr (concat (map (\<lambda>p. map holding (fst p)) pages)), s')
       \<and> sent s' = sent s @ page_requests account pages
       \<and> length (sent s') = length (sent s) + length pages
       \<and> fungibles_request account JNull =
           JObj [(''address'', JStr account), (''aggregation_level'', JStr ''Global'')]
       \<and> (\<forall>c \<in> set (map snd (butlast pages)).
            fungibles_request account c =
              JObj [(''address'', JStr account), (''aggregation_level'', JStr ''Global''),
                    (''cursor'', c)])"
proof -
  assume sv: "serves_pages env account (world s) JNull pages"
    and wf: "\<forall>p \<in> set pages. \<forall>item \<in> set (fst p). \<not> nullish item"
  from pages_loop[OF sv wf, of "[]"] obtain s' where
    l: "js_do_while (fungibles_page env account) (JNull, [], s) =
           Some (Inr (concat (map (\<lambda>p. map holding (fst p)) pages)), s')"
    and st: "sent s' = sent s @ page_requests account pages"
    by (auto simp: page_requests_def)
  have ne: "pages \<noteq> []" using sv by auto
  have truthy: "serves_pages env account w c ps \<Longrightarrow> \<forall>c \<in> set (map snd (butlast ps)). js_truthy c"
    for w c ps
  proof (induction ps arbitrary: w c)
    case Nil
    then show ?case by simp
  next
    case (Cons p ps)
    then show ?case
      by (cases p) (auto split: prod.splits fetch_outcome.splits option.splits if_splits)
  qed
  have "length (sent s') = length (sent s) + length pages"
    using st ne by (simp add: page_requests_def)
  moreover have "\<forall>c \<in> set (map snd (butlast pages)).
            fungibles_request account c =
              JObj [(''address'', JStr account), (''aggregation_level'', JStr ''Global''),
                    (''cursor'', c)]"
    using truthy[OF sv] by (simp add: fungibles_request_def)
  ultimately show ?thesis using l st by (auto simp: fungibles_request_def)
qed

lemma serves_three:
  "serves_pages env_three_pages ''account_x'' () JNull
     [([fungible ''resource_a'' ''1'', fungible ''resource_b'' ''2''], JStr ''c1''),
      ([fungible ''resource_c'' ''3''], JStr ''c2''),
      ([fungible ''resource_d'' ''4''], JNull)]"
  by (simp add: env_three_pages_def fungibles_request_def page_of_def nullish_def)

theorem fungibles_pagination_witness:
  "serves_pages env_three_pages ''account_x'' (world (start_app ())) JNull
     [([fungible ''resource_a'' ''1'', fungible ''resource_b'' ''2''], JStr ''c1''),
      ([fungible ''resource_c'' ''3''], JStr ''c2''),
      ([fungible ''resource_d'' ''4''], JNull)]
   \<and> (\<exists>s'. js_do_while (fungibles_page env_three_pages ''account_x'') (JNull, [], start_app ()) =
          Some (Inr [holding (fungible ''resource_a'' ''1''), holding (fungible ''resource_b'' ''2''),
                     holding (fungible ''resource_c'' ''3''), holding (fungible ''resource_d'' ''4'')], s')
        \<and> map snd (sent s') =
            [JObj [(''address'', JStr ''account_x''), (''aggregation_level'', JStr ''Global'')],
             JObj [(''address'', JStr ''account_x''), (''aggregation_level'', JStr ''Global''),
                   (''cursor'', JStr ''c1'')],
             JObj [(''address'', JStr ''account_x''), (''aggregation_level'', JStr ''Global''),
                   (''cursor'', JStr ''c2'')]])"
proof -
  have sv: "serves_pages env_three_pages ''account_x'' (world (start_app ())) JNull
     [([fungible ''resource_a'' ''1'', fungible ''resource_b'' ''2''], JStr ''c1''),
      ([fungible ''resource_c'' ''3''], JStr ''c2''),
      ([fungible ''resource_d'' ''4''], JNull)]"
    using serves_three by (simp add: start_app_def)
  have wf: "\<forall>p \<in> set [([fungible ''resource_a'' ''1'', fungible ''resource_b'' ''2''], JStr ''c1''),
      ([fungible ''resource_c'' ''3''], JStr ''c2''),
      ([fungible ''resource_d'' ''4''], JNull)]. \<forall>item \<in> set (fst p). \<not> nullish item"
    by (simp add: fungible_def nullish_def)
  from fungibles_pagination[OF sv wf] show ?thesis
    using sv by (auto simp: page_requests_def start_app_def fungibles_request_def)
qed

theorem fungibles_pagination_counterexample:
  "fst (fetch env_empty_cursor 0 (CONFIG_gatewayUrl @ ''/state/entity/page/fungibles/'')
          (fungibles_request ''account_x'' JNull)) =
     Response 200 (Some (page_of [fungible ''resource_a'' ''1''] (JStr [])))
   \<and> JStr [] \<noteq> JNull
   \<and> fst (fetch env_empty_cursor 1 (CONFIG_gatewayUrl @ ''/state/entity/page/fungibles/'')
          (fungibles_request ''account_x'' (JStr []))) =
     Response 200 (Some (page_of [fungible ''resource_b'' ''2''] JNull))
   \<and> map_option (\<lambda>r. (fst r, length (sent (snd r))))
        (js_do_while (fungibles_page env_empty_cursor ''account_x'') (JNull, [], start_app 0)) =
       Some (Inr [holding (fungible ''resource_a'' ''1'')], 1)"
  by (simp add: env_empty_cursor_def js_do_while.simps fungibles_page_def gatewayFetch_def
      start_app_def page_of_def js_get_def nullish_def fungible_def holding_def)

subsection \<open>The metadata resolver\<close>

lemma cache_get_rest:
  "world (snd (cache_get env key s)) = world s"
  "sent (snd (cache_get env key s)) = sent s"
  "quota_exceeded (snd (cache_get env key s)) = quota_exceeded s"
  "sessionData (snd (cache_get env key s)) = sessionData s"
  by (auto simp: cache_get_def Let_def split: option.splits ls_text.splits)

lemma cache_get_miss_again:
  "\<not> js_truthy (fst (cache_get env k s)) \<Longrightarrow>
   \<not> js_truthy (fst (cache_get env k (snd (cache_get env k' s))))"
proof -
  assume a: "\<not> js_truthy (fst (cache_get env k s))"
  have d: "Date_now env (s\<lparr>localStorage := m\<rparr>) = Date_now env s" for m
    by (simp add: Date_now_def)
  show ?thesis
  proof (cases "snd (cache_get env k' s) = s")
    case True
    then show ?thesis using a by simp
  next
    case False
    then have s': "snd (cache_get env k' s) = s\<lparr>localStorage := (localStorage s)(CACHE_PREFIX @ k' := None)\<rparr>"
      by (auto simp: cache_get_def Let_def split: option.splits ls_text.splits if_splits)
    show ?thesis
    proof (cases "k' = k")
      case True
      then show ?thesis unfolding s' by (simp add: cache_get_def)
    next
      case False
      then have "cache_get env k (s\<lparr>localStorage := (localStorage s)(CACHE_PREFIX @ k' := None)\<rparr>) =
         (fst (cache_get env k s), (snd (cache_get env k s))\<lparr>localStorage := (localStorage (snd (cache_get env k s)))(CACHE_PREFIX @ k' := None)\<rparr>)"
        by (auto simp: cache_get_def Let_def d fun_upd_twist split: option.splits ls_text.splits)
      then show ?thesis using a unfolding s' by simp
    qed
  qed
qed

lemma partition_cached_miss:
  assumes "\<not> js_truthy (fst (cache_get env (''resource:'' @ ToString a) s))"
    and "partition_cached env addrs results toFetch s = (results', toFetch', s')"
  shows "results' (ToString a) = results (ToString a)
       \<and> (a \<in> set addrs \<or> toFetch \<noteq> [] \<longrightarrow> toFetch' \<noteq> [])
       \<and> world s' = world s \<and> sent s' = sent s \<and> quota_exceeded s' = quota_exceeded s"
  using assms
proof (induction addrs arbitrary: results toFetch s)
  case Nil
  then show ?case by simp
next
  case (Cons addr addrs)
  obtain cached s1 where cg: "cache_get env (''resource:'' @ ToString addr) s = (cached, s1)"
    by (cases "cache_get env (''resource:'' @ ToString addr) s")
  have miss1: "\<not> js_truthy (fst (cache_get env (''resource:'' @ ToString a) s1))"
    using cache_get_miss_again[OF Cons.prems(1), of "''resource:'' @ ToString addr"] cg by simp
  have ws: "world s1 = world s" "sent s1 = sent s" "quota_exceeded s1 = quota_exceeded s"
    using cache_get_rest[of env "''resource:'' @ ToString addr" s] cg by simp_all
  show ?case
  proof (cases "js_truthy cached")
    case True
    have ne: "ToString addr \<noteq> ToString a"
      using Cons.prems(1) cg True by auto
    then have "addr \<noteq> a" by auto
    from Cons.prems(2) cg True
    have "partition_cached env addrs (results(ToString addr \<mapsto> cached)) toFetch s1 = (results', toFetch', s')"
      by simp
    from Cons.IH[OF miss1 this] show ?thesis using ne \<open>addr \<noteq> a\<close> ws by auto
  next
    case False
    from Cons.prems(2) cg False
    have "partition_cached env addrs results (toFetch @ [addr]) s1 = (results', toFetch', s')"
      by simp
    from Cons.IH[OF miss1 this] show ?thesis using ws by auto
  qed
qed

lemma cache_set_rest:
  "world (cache_set env key v ttl s) = world s"
  "sent (cache_set env key v ttl s) = sent s"
  by (simp_all add: cache_set_def Let_def)

lemma resolve_items_omitted:
  assumes "\<forall>item \<in> set xs. (\<exists>rd. resourceData item = Inr rd) \<and> ToString (js_prop item ''address'') \<noteq> k"
  shows "\<exists>m s'. resolve_items env xs results s = (Inr m, s') \<and> m k = results k"
  using assms
proof (induction xs arbitrary: results s)
  case Nil
  then show ?case by simp
next
  case (Cons item xs)
  then obtain rd where rd: "resourceData item = Inr rd"
    and ne: "ToString (js_prop item ''address'') \<noteq> k" by auto
  from Cons.prems have "\<forall>item \<in> set xs. (\<exists>rd. resourceData item = Inr rd) \<and> ToString (js_prop item ''address'') \<noteq> k"
    by simp
  from Cons.IH[OF this, of "results(ToString (js_prop item ''address'') \<mapsto> rd)"
      "cache_set env (''resource:'' @ ToString (js_prop item ''address'')) rd CONFIG_cacheTtl_resourceMetadata s"]
  obtain m s' where
    "resolve_items env xs (results(ToString (js_prop item ''address'') \<mapsto> rd))
       (cache_set env (''resource:'' @ ToString (js_prop item ''address'')) rd CONFIG_cacheTtl_resourceMetadata s)
     = (Inr m, s')"
    and "m k = (results(ToString (js_prop item ''address'') \<mapsto> rd)) k"
    by blast
  then have "resolve_items env (item # xs) results s = (Inr m, s') \<and> m k = results k"
    using rd ne by (simp add: Let_def)
  then show ?case by blast
qed

text \<open>
  C10. When \<open>a\<close> is among the addresses asked for and the durable cache gives nothing
  for it, and the response of the Gateway to the batch of uncached addresses has no item
  with this address (its items being ones that \<open>resourceData\<close> accepts), then
  \<open>getResourceMetadata\<close> succeeds with a map that has no entry for \<open>a\<close>, and merging this
  map into a holding of \<open>a\<close> gives the holding with no field added.
\<close>

theorem getResourceMetadata_omitted_item:
  assumes "a \<in> set addresses"
    and "\<not> js_truthy (fst (cache_get env (''resource:'' @ ToString a) s))"
    and "partition_cached env addresses Map.empty [] s = (cached, uncached, s1)"
    and "fst (fetch env (world s) (CONFIG_gatewayUrl @ ''/state/entity/details'') (details_request uncached))
           = Response 200 (Some data)"
    and "js_prop data ''items'' = JArr items" and "\<not> nullish data"
    and "\<forall>item \<in> set items. (\<exists>rd. resourceData item = Inr rd)
           \<and> ToString (js_prop item ''address'') \<noteq> ToString a"
  shows "\<exists>metadata s'. getResourceMetadata env addresses s = (Inr metadata, s')
           \<and> metadata (ToString a) = None
           \<and> merge_metadata metadata (JObj [(''resourceAddress'', a), (''amount'', n)])
               = JObj [(''resourceAddress'', a), (''amount'', n)]"
proof -
  note pc = assms(3)
  from partition_cached_miss[OF assms(2) pc] assms(1)
  have r: "cached (ToString a) = None" and tf: "uncached \<noteq> []" and w: "world s1 = world s"
    by auto
  obtain w' where f: "fetch env (world s1) (CONFIG_gatewayUrl @ ''/state/entity/details'') (details_request uncached)
        = (Response 200 (Some data), w')"
    using assms(4) w
    by (cases "fetch env (world s1) (CONFIG_gatewayUrl @ ''/state/entity/details'') (details_request uncached)") auto
  let ?s2 = "s1\<lparr>world := w', sent := sent s1 @ [(''/state/entity/details'', details_request uncached)]\<rparr>"
  have gf: "gatewayFetch env ''/state/entity/details'' (details_request uncached) s1 = (Inr data, ?s2)"
    using f by (simp add: gatewayFetch_def)
  from resolve_items_omitted[OF assms(7), of env cached ?s2] obtain m s' where
    ri: "resolve_items env items cached ?s2 = (Inr m, s')" and mk: "m (ToString a) = cached (ToString a)"
    by blast
  have "getResourceMetadata env addresses s = (Inr m, s')"
    using pc tf gf ri assms(5,6) by (simp add: getResourceMetadata_def js_get_def)
  moreover have "m (ToString a) = None" using mk r by simp
  moreover from this have "merge_metadata m (JObj [(''resourceAddress'', a), (''amount'', n)])
               = JObj [(''resourceAddress'', a), (''amount'', n)]"
    by (simp add: merge_metadata_def lookup_def spread_into_def)
  ultimately show ?thesis by blast
qed

theorem getResourceMetadata_omitted_item_witness:
  "JStr ''resource_unknown'' \<in> set [JStr res_a, JStr ''resource_unknown'']
   \<and> \<not> js_truthy (fst (cache_get env_details (''resource:'' @ ToString (JStr ''resource_unknown''))
                          (start_app ())))
   \<and> (\<exists>metadata s'.
         getResourceMetadata env_details [JStr res_a, JStr ''resource_unknown''] (start_app ())
           = (Inr metadata, s')
         \<and> metadata ''resource_unknown'' = None
         \<and> merge_metadata metadata
             (JObj [(''resourceAddress'', JStr ''resource_unknown''), (''amount'', JStr ''7'')])
             = JObj [(''resourceAddress'', JStr ''resource_unknown''), (''amount'', JStr ''7'')])"
proof -
  let ?a = "JStr ''resource_unknown''"
  have 1: "?a \<in> set [JStr res_a, ?a]" by simp
  have 2: "\<not> js_truthy (fst (cache_get env_details (''resource:'' @ ToString ?a) (start_app ())))"
    by (simp add: cache_get_def start_app_def)
  have 3: "partition_cached env_details [JStr res_a, ?a] Map.empty [] (start_app ())
             = (Map.empty, [JStr res_a, ?a], start_app ())"
    by (simp add: cache_get_def start_app_def)
  have 4: "fst (fetch env_details (world (start_app ())) (CONFIG_gatewayUrl @ ''/state/entity/details'')
                  (details_request [JStr res_a, ?a]))
             = Response 200 (Some (JObj [(''items'', JArr [known_resources ! 0])]))"
    by (simp add: fixture_defs details_request_def)
  have 5: "js_prop (JObj [(''items'', JArr [known_resources ! 0])]) ''items'' = JArr [known_resources ! 0]"
    by simp
  have 6: "\<not> nullish (JObj [(''items'', JArr [known_resources ! 0])])"
    by (simp add: nullish_def)
  have 7: "\<forall>item \<in> set [known_resources ! 0]. (\<exists>rd. resourceData item = Inr rd)
             \<and> ToString (js_prop item ''address'') \<noteq> ToString ?a"
    by (simp add: fixture_defs eval_defs)
  from getResourceMetadata_omitted_item[OF 1 2 3 4 5 6 7, of "JStr ''7''"] 1 2
  show ?thesis by simp
qed





lemma cache_set_infinite_then_get:
  assumes "\<not> quota_exceeded s" and "0 < clock env (world s)"
  shows "cache_get env key (cache_set env key v PInf s) =
     (JNull, s\<lparr>localStorage := (localStorage s)(CACHE_PREFIX @ key := None)\<rparr>)"
proof -
  have "js_add (Date_now env s) PInf = PInf" by (simp add: Date_now_def)
  then show ?thesis
    using assms
    by (cases "v = JUndefined") (simp_all add: cache_set_def cache_get_def Let_def nullish_def Date_now_def)
qed

lemma sessionCache_set_infinite_then_get:
  "fst (sessionCache_get env key (sessionCache_set env key v PInf s)) = v"
  by (simp add: sessionCache_set_def sessionCache_get_def Date_now_def)

text \<open>
  C8. Evaluated where the claim fails. An entry that \<open>cache.set\<close> writes with the
  configured time to live, \<open>Infinity\<close>, is stored with the expiry \<open>null\<close> (JSON has no
  infinity), which \<open>cache.get\<close> compares with the clock as zero: the entry is read as
  expired. So after \<open>getResourceMetadata\<close> has resolved and stored two addresses, the
  next call, for these two and a third, asks the Gateway for all three.
\<close>

theorem durable_cache_refetches:
  "fst (cache_get env_details ''resource:x''
          (cache_set env_details ''resource:x'' (JStr ''v'') CONFIG_cacheTtl_resourceMetadata
             (start_app ()))) = JNull
   \<and> (case getResourceMetadata env_details [JStr res_a, JStr res_b] (start_app ()) of
        (r1, s1) \<Rightarrow>
          (case getResourceMetadata env_details [JStr res_a, JStr res_b, JStr res_c] s1 of
             (r2, s2) \<Rightarrow>
               localStorage s1 (CACHE_PREFIX @ ''resource:'' @ res_a) \<noteq> None
               \<and> localStorage s1 (CACHE_PREFIX @ ''resource:'' @ res_b) \<noteq> None
               \<and> map snd (sent s2) =
                   [details_request [JStr res_a, JStr res_b],
                    details_request [JStr res_a, JStr res_b, JStr res_c]]))"
  by (simp add: fixture_defs eval_defs)

subsection \<open>The clamped balance\<close>


























end
